theory Spec2Isabelle
  imports Main
begin

section \<open>Data model\<close>

text \<open>
  The persisted properties of the class \<open>TodoList\<close> (\<open>id\<close>, \<open>realmId\<close>, \<open>owner\<close>,
  \<open>title\<close>). The same record type stands for the in-memory entity \<open>this\<close> a method is
  called on and for the row stored in the table \<open>todoLists\<close>: no method assigns to a
  property of \<open>this\<close>, so the entity is a read-only argument of every method.
  Field names carry a prefix, since \<open>realmId\<close> is a property of four kinds of rows
  and \<open>id\<close> is a constant of HOL.
\<close>

record TodoList =
  list_id :: string
  list_realmId :: string
  list_owner :: string
  list_title :: string

text \<open>
  Modelled from the spec: a row of the table \<open>todoItems\<close>, whose declaration is in
  \<open>TodoDB.ts\<close> (spec section 3: \<open>{ realmId, listId, ... }\<close>). The methods read and
  write its properties \<open>realmId\<close> and \<open>todoListId\<close> only; all its other properties
  are the value \<open>item_fields\<close> of an arbitrary type.
\<close>

record 'a TodoItem =
  item_realmId :: string
  item_todoListId :: string
  item_fields :: 'a

text \<open>
  Modelled from the spec: a row of the table \<open>realms\<close> (spec section 3:
  \<open>{ realmId, name }\<close>), with the two properties that \<open>makeSharable\<close> writes.
\<close>

record Realm =
  realm_realmId :: string
  realm_name :: string

text \<open>
  Modelled from the spec: the permissions of a member (spec section 3:
  \<open>{ add: set<string>, update: map<string, set<string>> }\<close>), as the array and the
  object literal that \<open>shareWith\<close> writes.
\<close>

record Permissions =
  perm_add :: "string list"
  perm_update :: "(string \<times> string list) list"

text \<open>
  Modelled from the spec: a row of the table \<open>members\<close> (spec section 3), with the
  properties that \<open>shareWith\<close> writes. The primary key of a member is generated by the
  store and is not part of the row here.
\<close>

record Member =
  member_realmId :: string
  member_name :: string
  member_email :: string
  member_invite :: bool
  member_permissions :: Permissions

text \<open>
  The database object \<open>db\<close>: its four tables, each the list of its rows, and
  \<open>db.cloud.currentUserId\<close>.
\<close>

record 'a TodoDB =
  todoLists :: "TodoList list"
  todoItems :: "'a TodoItem list"
  members :: "Member list"
  realms :: "Realm list"
  currentUserId :: string

section \<open>Store requests, failure and transactions\<close>

text \<open>
  The only errors of the methods are the ones a store request raises. \<open>StorageError n\<close>
  is the error raised by the request that starts at line \<open>n\<close> of \<open>TodoList.ts\<close>.
\<close>

datatype error = StorageError nat

type_synonym ('a, 'r) task = "'a TodoDB \<Rightarrow> 'a TodoDB \<times> (error + 'r)"

text \<open>
  Modelled from the spec: a request to the Record Store. Whether a request raises is
  not decided by the code of the methods, so it is a parameter: \<open>fails n\<close> says that the
  request at source line \<open>n\<close> raises. No method has a loop, so every request line runs at
  most once in a call and \<open>fails\<close> describes every pattern of failures of one call. A
  request that raises changes nothing.
\<close>

definition request :: "(nat \<Rightarrow> bool) \<Rightarrow> nat \<Rightarrow> ('a TodoDB \<Rightarrow> 'a TodoDB \<times> 'r) \<Rightarrow> ('a, 'r) task" where
  "request fails line f d =
     (if fails line then (d, Inl (StorageError line))
      else (case f d of (d', v) \<Rightarrow> (d', Inr v)))"

text \<open>
  \<open>await m k\<close>: run \<open>m\<close>; when it raises, the rest \<open>k\<close> of the \<open>async\<close> body does not run and
  the error propagates; otherwise \<open>k\<close> runs on the value and the database \<open>m\<close> left.
\<close>

definition await :: "('a, 'r) task \<Rightarrow> ('r \<Rightarrow> ('a, 's) task) \<Rightarrow> ('a, 's) task" where
  "await m k d =
     (case m d of
        (d', Inl e) \<Rightarrow> (d', Inl e)
      | (d', Inr v) \<Rightarrow> k v d')"

definition return :: "'r \<Rightarrow> ('a, 'r) task" where
  "return v d = (d, Inr v)"

text \<open>
  Modelled from the spec: \<open>db.transaction('rw', tables, body)\<close>, the Transaction
  Coordinator of the store (``atomic, isolated, all-or-nothing''; ``any exception
  inside a transaction body aborts and rolls back all mutations in that transaction;
  propagated to the caller as a failed asynchronous operation''). A transaction
  started inside the body of another one runs as part of it: its own rollback
  restores the database it started from, and the error goes on to the enclosing body.
\<close>

definition transaction :: "('a, 'r) task \<Rightarrow> ('a, 'r) task" where
  "transaction body d =
     (case body d of
        (d', Inl e) \<Rightarrow> (d, Inl e)
      | (d', Inr v) \<Rightarrow> (d', Inr v))"

subsection \<open>Table methods\<close>

text \<open>
  The methods of the Record Store that the class calls (spec section 6:
  \<open>get/put/update/delete\<close> by key, \<open>where(predicate).modify(mutation)\<close>,
  \<open>where(predicate).delete()\<close>, \<open>where(predicate).count()\<close>) and \<open>add\<close>, each for the
  table it is called on. The primary key of \<open>todoLists\<close> is \<open>id\<close>, the primary key of
  \<open>realms\<close> is \<open>realmId\<close>.
\<close>

text \<open>
  Modelled from the spec: \<open>db.todoLists.get(k)\<close>, the row stored under the key \<open>k\<close>, if
  any. No method calls it; the theorems read the stored list through it.
\<close>

definition get_todoLists :: "'a TodoDB \<Rightarrow> string \<Rightarrow> TodoList option" where
  "get_todoLists d k = find (\<lambda>l. list_id l = k) (todoLists d)"

text \<open>
  Modelled from the spec: \<open>db.realms.put(r)\<close>, insert-or-replace (spec section 4.2:
  ``upsert, not insert-or-fail''): the row stored under the key of \<open>r\<close>, if any, is
  replaced by \<open>r\<close>.
\<close>

definition put_realms :: "Realm \<Rightarrow> 'a TodoDB \<Rightarrow> 'a TodoDB \<times> unit" where
  "put_realms r d =
     (d\<lparr>realms := filter (\<lambda>x. realm_realmId x \<noteq> realm_realmId r) (realms d) @ [r]\<rparr>, ())"

text \<open>
  Modelled from the spec: \<open>db.realms.delete(k)\<close>; deleting a key that is not stored
  changes nothing and does not raise (spec section 7).
\<close>

definition delete_realms :: "string \<Rightarrow> 'a TodoDB \<Rightarrow> 'a TodoDB \<times> unit" where
  "delete_realms k d = (d\<lparr>realms := filter (\<lambda>x. realm_realmId x \<noteq> k) (realms d)\<rparr>, ())"

text \<open>
  Modelled from the spec: \<open>db.todoLists.update(k, changes)\<close>; the changes are applied
  to the row stored under \<open>k\<close>, and nothing happens when there is none.
\<close>

definition update_todoLists :: "string \<Rightarrow> (TodoList \<Rightarrow> TodoList) \<Rightarrow> 'a TodoDB \<Rightarrow> 'a TodoDB \<times> unit" where
  "update_todoLists k changes d =
     (d\<lparr>todoLists := map (\<lambda>l. if list_id l = k then changes l else l) (todoLists d)\<rparr>, ())"

text \<open>
  Modelled from the spec: \<open>db.todoLists.delete(k)\<close>.
\<close>

definition delete_todoLists :: "string \<Rightarrow> 'a TodoDB \<Rightarrow> 'a TodoDB \<times> unit" where
  "delete_todoLists k d = (d\<lparr>todoLists := filter (\<lambda>l. list_id l \<noteq> k) (todoLists d)\<rparr>, ())"

text \<open>
  Modelled from the spec: \<open>db.todoItems.where(p).modify(changes)\<close>, the Consistent
  Mutation Operator on one database (spec section 4.5): the changes are applied to
  every row that satisfies \<open>p\<close>.
\<close>

definition where_modify_todoItems ::
    "('a TodoItem \<Rightarrow> bool) \<Rightarrow> ('a TodoItem \<Rightarrow> 'a TodoItem) \<Rightarrow> 'a TodoDB \<Rightarrow> 'a TodoDB \<times> unit" where
  "where_modify_todoItems p changes d =
     (d\<lparr>todoItems := map (\<lambda>i. if p i then changes i else i) (todoItems d)\<rparr>, ())"

text \<open>
  Modelled from the spec: \<open>db.todoItems.where(p).delete()\<close>.
\<close>

definition where_delete_todoItems :: "('a TodoItem \<Rightarrow> bool) \<Rightarrow> 'a TodoDB \<Rightarrow> 'a TodoDB \<times> unit" where
  "where_delete_todoItems p d = (d\<lparr>todoItems := filter (\<lambda>i. \<not> p i) (todoItems d)\<rparr>, ())"

text \<open>
  Modelled from the spec: \<open>db.members.where(p).delete()\<close>.
\<close>

definition where_delete_members :: "(Member \<Rightarrow> bool) \<Rightarrow> 'a TodoDB \<Rightarrow> 'a TodoDB \<times> unit" where
  "where_delete_members p d = (d\<lparr>members := filter (\<lambda>m. \<not> p m) (members d)\<rparr>, ())"

text \<open>
  Modelled from the spec: \<open>db.members.where(p).count()\<close>.
\<close>

definition where_count_members :: "(Member \<Rightarrow> bool) \<Rightarrow> 'a TodoDB \<Rightarrow> 'a TodoDB \<times> nat" where
  "where_count_members p d = (d, length (filter p (members d)))"

text \<open>
  Modelled from the spec: \<open>db.members.add(m)\<close>. The key of the new row is generated, so
  no stored row has it and the row is always appended.
\<close>

definition add_members :: "Member \<Rightarrow> 'a TodoDB \<Rightarrow> 'a TodoDB \<times> unit" where
  "add_members m d = (d\<lparr>members := members d @ [m]\<rparr>, ())"

section \<open>The methods of \<open>TodoList\<close>\<close>

text \<open>
  \<open>getTiedRealmId\<close> is imported from \<open>dexie-cloud-addon\<close>; it is a parameter of every
  method that calls it, so the theorems hold for every such function.
\<close>

definition isSharable :: "(string \<Rightarrow> string) \<Rightarrow> TodoList \<Rightarrow> bool" where
  "isSharable getTiedRealmId this = (list_realmId this = getTiedRealmId (list_id this))"

definition makeSharable ::
    "(string \<Rightarrow> string) \<Rightarrow> (nat \<Rightarrow> bool) \<Rightarrow> TodoList \<Rightarrow> ('a, string) task" where
  "makeSharable getTiedRealmId fails this =
     (let currentRealmId = list_realmId this;
          newRealmId = getTiedRealmId (list_id this)
      in await
           (transaction
              (await (request fails 48
                        (put_realms \<lparr>realm_realmId = newRealmId, realm_name = list_title this\<rparr>))
                 (\<lambda>_. await (request fails 54
                                (update_todoLists (list_id this) (\<lambda>l. l\<lparr>list_realmId := newRealmId\<rparr>)))
                 (\<lambda>_. request fails 56
                         (where_modify_todoItems
                            (\<lambda>i. item_realmId i = currentRealmId \<and> item_todoListId i = list_id this)
                            (\<lambda>i. i\<lparr>item_realmId := newRealmId\<rparr>))))))
           (\<lambda>_. return newRealmId))"

definition makePrivate :: "(nat \<Rightarrow> bool) \<Rightarrow> TodoList \<Rightarrow> ('a, unit) task" where
  "makePrivate fails this =
     (let oldRealmId = list_realmId this
      in transaction
           (await (request fails 74
                     (\<lambda>d. where_modify_todoItems
                             (\<lambda>i. item_realmId i = oldRealmId \<and> item_todoListId i = list_id this)
                             (\<lambda>i. i\<lparr>item_realmId := currentUserId d\<rparr>) d))
              (\<lambda>_. await (request fails 82
                             (\<lambda>d. update_todoLists (list_id this)
                                     (\<lambda>l. l\<lparr>list_realmId := currentUserId d\<rparr>) d))
              (\<lambda>_. await (request fails 87
                             (where_delete_members (\<lambda>m. member_realmId m = oldRealmId)))
              (\<lambda>_. request fails 89 (delete_realms (list_realmId this)))))))"

definition shareWith ::
    "(string \<Rightarrow> string) \<Rightarrow> (nat \<Rightarrow> bool) \<Rightarrow> TodoList \<Rightarrow> string \<Rightarrow> string \<Rightarrow> bool \<Rightarrow> ('a, unit) task" where
  "shareWith getTiedRealmId fails this name email sendEmail =
     transaction
       (await (if \<not> isSharable getTiedRealmId this
               then makeSharable getTiedRealmId fails this
               else return (list_realmId this))
          (\<lambda>realmId. request fails 106
                        (add_members
                           \<lparr>member_realmId = realmId,
                            member_name = name,
                            member_email = email,
                            member_invite = sendEmail,
                            member_permissions =
                              \<lparr>perm_add = [''todoItems''],
                               perm_update = [(''todoItems'', [''done''])]\<rparr>\<rparr>)))"

definition unshareWith :: "(nat \<Rightarrow> bool) \<Rightarrow> TodoList \<Rightarrow> string \<Rightarrow> ('a, unit) task" where
  "unshareWith fails this email =
     transaction
       (await (request fails 123
                 (where_delete_members
                    (\<lambda>m. member_realmId m = list_realmId this \<and> member_email m = email)))
          (\<lambda>_. await (request fails 129
                         (where_count_members (\<lambda>m. member_realmId m = list_realmId this)))
          (\<lambda>numMembers. if numMembers \<le> 1 then makePrivate fails this else return ())))"

text \<open>
  The body of the transaction of \<open>delete\<close> issues its four requests without awaiting
  them. They are requests of one transaction, served in the order they are issued, and
  a request that raises aborts that transaction.
\<close>

definition delete :: "(string \<Rightarrow> string) \<Rightarrow> (nat \<Rightarrow> bool) \<Rightarrow> TodoList \<Rightarrow> ('a, unit) task" where
  "delete getTiedRealmId fails this =
     transaction
       (await (request fails 147
                 (where_delete_todoItems (\<lambda>i. item_todoListId i = list_id this)))
          (\<lambda>_. await (request fails 154 (delete_todoLists (list_id this)))
          (\<lambda>_. let tiedRealmId = getTiedRealmId (list_id this)
                in await (request fails 158
                            (where_delete_members (\<lambda>m. member_realmId m = tiedRealmId)))
                     (\<lambda>_. request fails 159 (delete_realms tiedRealmId)))))"

section \<open>Properties of a database\<close>

text \<open>
  The member row that \<open>shareWith\<close> adds, as a function of its realm, name, email and
  invite flag.
\<close>

definition invited :: "string \<Rightarrow> string \<Rightarrow> string \<Rightarrow> bool \<Rightarrow> Member" where
  "invited realmId name email sendEmail =
     \<lparr>member_realmId = realmId, member_name = name, member_email = email,
      member_invite = sendEmail,
      member_permissions =
        \<lparr>perm_add = [''todoItems''], perm_update = [(''todoItems'', [''done''])]\<rparr>\<rparr>"

text \<open>
  The cross-table invariant of the data model: every item stored under a list has the
  \<open>realmId\<close> that list has in the store.
\<close>

definition items_follow_lists :: "'a TodoDB \<Rightarrow> bool" where
  "items_follow_lists d =
     (\<forall>i \<in> set (todoItems d). \<forall>l \<in> set (todoLists d).
        item_todoListId i = list_id l \<longrightarrow> item_realmId i = list_realmId l)"

text \<open>
  The entity \<open>this\<close> is current: every stored row with its \<open>id\<close> has the \<open>realmId\<close> the
  entity has in memory.
\<close>

definition entity_current :: "'a TodoDB \<Rightarrow> TodoList \<Rightarrow> bool" where
  "entity_current d this =
     (\<forall>l \<in> set (todoLists d). list_id l = list_id this \<longrightarrow> list_realmId l = list_realmId this)"

section \<open>Example data\<close>

text \<open>
  A sample derivation of the tied realm id, and sample databases, for evaluating the
  methods on concrete inputs.
\<close>

definition rlm :: "string \<Rightarrow> string" where "rlm k = ''rlm~'' @ k"

definition groceries :: TodoList where
  "groceries = \<lparr>list_id = ''l1'', list_realmId = ''alice'', list_owner = ''alice'', list_title = ''Groceries''\<rparr>"

definition shared_groceries :: TodoList where
  "shared_groceries = groceries\<lparr>list_realmId := ''rlm~l1''\<rparr>"

definition db0 :: "string TodoDB" where
  "db0 = \<lparr>todoLists = [groceries],
          todoItems = [\<lparr>item_realmId = ''alice'', item_todoListId = ''l1'', item_fields = ''milk''\<rparr>,
                       \<lparr>item_realmId = ''alice'', item_todoListId = ''l2'', item_fields = ''stamps''\<rparr>],
          members = [], realms = [], currentUserId = ''alice''\<rparr>"

definition db1 :: "string TodoDB" where
  "db1 = \<lparr>todoLists = [groceries\<lparr>list_realmId := ''rlm~l1''\<rparr>],
          todoItems = [\<lparr>item_realmId = ''rlm~l1'', item_todoListId = ''l1'', item_fields = ''milk''\<rparr>,
                       \<lparr>item_realmId = ''alice'', item_todoListId = ''l2'', item_fields = ''stamps''\<rparr>],
          members = [],
          realms = [\<lparr>realm_realmId = ''rlm~l1'', realm_name = ''Groceries''\<rparr>],
          currentUserId = ''alice''\<rparr>"

definition db_shared :: "string TodoDB" where
  "db_shared = db1\<lparr>members := [invited ''rlm~l1'' ''Bob'' ''bob@example.org'' True]\<rparr>"

definition db_left :: "string TodoDB" where
  "db_left = db_shared\<lparr>todoLists := [groceries]\<rparr>"

definition db_bob :: "string TodoDB" where
  "db_bob = db1\<lparr>members := [invited ''rlm~l1'' ''Bob'' ''bob@example.org'' True],
                 currentUserId := ''bob''\<rparr>"

definition db_bob_private :: "string TodoDB" where
  "db_bob_private =
     db0\<lparr>todoItems := [\<lparr>item_realmId = ''bob'', item_todoListId = ''l1'', item_fields = ''milk''\<rparr>,
                        \<lparr>item_realmId = ''alice'', item_todoListId = ''l2'', item_fields = ''stamps''\<rparr>],
          todoLists := [groceries\<lparr>list_realmId := ''bob''\<rparr>],
          currentUserId := ''bob''\<rparr>"

definition db0_bob :: "string TodoDB" where
  "db0_bob = db0\<lparr>currentUserId := ''bob''\<rparr>"

definition db_carol_invited :: "string TodoDB" where
  "db_carol_invited =
     db1\<lparr>members := [invited ''rlm~l1'' ''Carol'' ''carol@example.org'' True],
          currentUserId := ''bob''\<rparr>"

definition db_deleted :: "string TodoDB" where
  "db_deleted = db0\<lparr>todoLists := [],
                     todoItems := [\<lparr>item_realmId = ''alice'', item_todoListId = ''l2'', item_fields = ''stamps''\<rparr>]\<rparr>"

definition db_personal :: "string TodoDB" where
  "db_personal = db0\<lparr>members := [invited ''alice'' ''Carol'' ''carol@example.org'' False,
                                  invited ''rlm~l1'' ''Bob'' ''bob@example.org'' True]\<rparr>"

definition db_left_members :: "string TodoDB" where
  "db_left_members = db0\<lparr>members := [invited ''rlm~l1'' ''Bob'' ''bob@example.org'' True]\<rparr>"

section \<open>What a call of each method returns\<close>

lemma makeSharable_run:
  "makeSharable T F this d =
     (if F 48 then (d, Inl (StorageError 48))
      else if F 54 then (d, Inl (StorageError 54))
      else if F 56 then (d, Inl (StorageError 56))
      else (d\<lparr>realms := filter (\<lambda>x. realm_realmId x \<noteq> T (list_id this)) (realms d)
                            @ [\<lparr>realm_realmId = T (list_id this), realm_name = list_title this\<rparr>],
               todoLists := map (\<lambda>l. if list_id l = list_id this then l\<lparr>list_realmId := T (list_id this)\<rparr> else l)
                              (todoLists d),
               todoItems := map (\<lambda>i. if item_realmId i = list_realmId this \<and> item_todoListId i = list_id this
                                       then i\<lparr>item_realmId := T (list_id this)\<rparr> else i) (todoItems d)\<rparr>,
            Inr (T (list_id this))))"
  by (simp add: makeSharable_def Let_def await_def transaction_def request_def return_def
        put_realms_def update_todoLists_def where_modify_todoItems_def)

lemma makePrivate_run:
  "makePrivate F this d =
     (if F 74 then (d, Inl (StorageError 74))
      else if F 82 then (d, Inl (StorageError 82))
      else if F 87 then (d, Inl (StorageError 87))
      else if F 89 then (d, Inl (StorageError 89))
      else (d\<lparr>todoItems := map (\<lambda>i. if item_realmId i = list_realmId this \<and> item_todoListId i = list_id this
                                       then i\<lparr>item_realmId := currentUserId d\<rparr> else i) (todoItems d),
               todoLists := map (\<lambda>l. if list_id l = list_id this then l\<lparr>list_realmId := currentUserId d\<rparr> else l)
                              (todoLists d),
               members := filter (\<lambda>m. member_realmId m \<noteq> list_realmId this) (members d),
               realms := filter (\<lambda>x. realm_realmId x \<noteq> list_realmId this) (realms d)\<rparr>,
            Inr ()))"
  by (simp add: makePrivate_def Let_def await_def transaction_def request_def return_def
        delete_realms_def update_todoLists_def where_modify_todoItems_def where_delete_members_def)

lemma shareWith_run:
  "shareWith T F this name email sendEmail d =
     (if isSharable T this
      then (if F 106 then (d, Inl (StorageError 106))
            else (d\<lparr>members := members d @ [invited (list_realmId this) name email sendEmail]\<rparr>, Inr ()))
      else (case makeSharable T F this d of
              (d1, Inl e) \<Rightarrow> (d, Inl e)
            | (d1, Inr realmId) \<Rightarrow>
                if F 106 then (d, Inl (StorageError 106))
                else (d1\<lparr>members := members d1 @ [invited realmId name email sendEmail]\<rparr>, Inr ())))"
  by (simp add: shareWith_def await_def transaction_def request_def return_def add_members_def
        invited_def split: prod.splits sum.splits)

lemma unshareWith_run:
  "unshareWith F this email d =
     (if F 123 then (d, Inl (StorageError 123))
      else if F 129 then (d, Inl (StorageError 129))
      else (let d1 = d\<lparr>members := filter (\<lambda>m. \<not> (member_realmId m = list_realmId this \<and> member_email m = email))
                                     (members d)\<rparr>
            in if length (filter (\<lambda>m. member_realmId m = list_realmId this) (members d1)) \<le> 1
               then (case makePrivate F this d1 of
                       (d2, Inl e) \<Rightarrow> (d, Inl e)
                     | (d2, Inr v) \<Rightarrow> (d2, Inr v))
               else (d1, Inr ())))"
  by (simp add: unshareWith_def await_def transaction_def request_def return_def
        where_delete_members_def where_count_members_def Let_def split: prod.splits sum.splits)

lemma delete_run:
  "delete T F this d =
     (if F 147 then (d, Inl (StorageError 147))
      else if F 154 then (d, Inl (StorageError 154))
      else if F 158 then (d, Inl (StorageError 158))
      else if F 159 then (d, Inl (StorageError 159))
      else (d\<lparr>todoItems := filter (\<lambda>i. item_todoListId i \<noteq> list_id this) (todoItems d),
               todoLists := filter (\<lambda>l. list_id l \<noteq> list_id this) (todoLists d),
               members := filter (\<lambda>m. member_realmId m \<noteq> T (list_id this)) (members d),
               realms := filter (\<lambda>x. realm_realmId x \<noteq> T (list_id this)) (realms d)\<rparr>,
            Inr ()))"
  by (simp add: delete_def await_def transaction_def request_def return_def Let_def
        where_delete_members_def where_delete_todoItems_def delete_todoLists_def delete_realms_def)

lemma makeSharable_ok:
  assumes "makeSharable T F this d = (d', Inr r)"
  shows "r = T (list_id this)"
    and "d' = d\<lparr>realms := filter (\<lambda>x. realm_realmId x \<noteq> T (list_id this)) (realms d)
                            @ [\<lparr>realm_realmId = T (list_id this), realm_name = list_title this\<rparr>],
               todoLists := map (\<lambda>l. if list_id l = list_id this then l\<lparr>list_realmId := T (list_id this)\<rparr> else l)
                              (todoLists d),
               todoItems := map (\<lambda>i. if item_realmId i = list_realmId this \<and> item_todoListId i = list_id this
                                       then i\<lparr>item_realmId := T (list_id this)\<rparr> else i) (todoItems d)\<rparr>"
  using assms by (auto simp add: makeSharable_run split: if_splits)

lemma makePrivate_ok:
  assumes "makePrivate F this d = (d', Inr r)"
  shows "d' = d\<lparr>todoItems := map (\<lambda>i. if item_realmId i = list_realmId this \<and> item_todoListId i = list_id this
                                       then i\<lparr>item_realmId := currentUserId d\<rparr> else i) (todoItems d),
               todoLists := map (\<lambda>l. if list_id l = list_id this then l\<lparr>list_realmId := currentUserId d\<rparr> else l)
                              (todoLists d),
               members := filter (\<lambda>m. member_realmId m \<noteq> list_realmId this) (members d),
               realms := filter (\<lambda>x. realm_realmId x \<noteq> list_realmId this) (realms d)\<rparr>"
  using assms by (simp add: makePrivate_run split: if_splits)

lemma shareWith_ok_private:
  assumes "\<not> isSharable T this"
      and "shareWith T F this name email sendEmail d = (d', Inr r)"
  shows "\<exists>d1. makeSharable T F this d = (d1, Inr (T (list_id this)))
            \<and> d' = d1\<lparr>members := members d1 @ [invited (T (list_id this)) name email sendEmail]\<rparr>"
proof (cases "makeSharable T F this d")
  case (Pair d1 res)
  show ?thesis
  proof (cases res)
    case (Inl e)
    with Pair assms show ?thesis by (simp add: shareWith_run)
  next
    case (Inr realmId)
    with Pair have "realmId = T (list_id this)" by (simp add: makeSharable_ok(1))
    with Pair Inr assms show ?thesis by (simp add: shareWith_run split: if_splits)
  qed
qed

lemma unshareWith_ok:
  assumes "unshareWith F this email d = (d', Inr r)"
  shows "let d1 = d\<lparr>members := filter (\<lambda>m. \<not> (member_realmId m = list_realmId this \<and> member_email m = email))
                                     (members d)\<rparr>
         in if length (filter (\<lambda>m. member_realmId m = list_realmId this) (members d1)) \<le> 1
            then makePrivate F this d1 = (d', Inr ())
            else d' = d1"
proof -
  let ?d1 = "d\<lparr>members := filter (\<lambda>m. \<not> (member_realmId m = list_realmId this \<and> member_email m = email))
                                     (members d)\<rparr>"
  from assms have ok: "\<not> F 123" "\<not> F 129"
    by (simp_all add: unshareWith_run split: if_splits)
  show ?thesis
  proof (cases "length (filter (\<lambda>m. member_realmId m = list_realmId this) (members ?d1)) \<le> 1")
    case True
    obtain d2 res where mp: "makePrivate F this ?d1 = (d2, res)" by (cases "makePrivate F this ?d1")
    with True ok assms have "d2 = d'" "res = Inr ()"
      by (cases res; simp add: unshareWith_run Let_def)+
    with mp True show ?thesis by (simp add: Let_def)
  next
    case False
    with ok assms have "d' = ?d1" by (simp add: unshareWith_run Let_def)
    with False show ?thesis by (simp add: Let_def)
  qed
qed

lemma delete_ok:
  assumes "delete T F this d = (d', Inr r)"
  shows "d' = d\<lparr>todoItems := filter (\<lambda>i. item_todoListId i \<noteq> list_id this) (todoItems d),
               todoLists := filter (\<lambda>l. list_id l \<noteq> list_id this) (todoLists d),
               members := filter (\<lambda>m. member_realmId m \<noteq> T (list_id this)) (members d),
               realms := filter (\<lambda>x. realm_realmId x \<noteq> T (list_id this)) (realms d)\<rparr>"
  using assms by (simp add: delete_run split: if_splits)

subsection \<open>Rows of a table after an update\<close>

lemma find_map_same_key:
  assumes "\<And>l. list_id (f l) = list_id l"
  shows "find (\<lambda>l. list_id l = k) (map (\<lambda>l. if list_id l = k then f l else l) xs)
           = map_option f (find (\<lambda>l. list_id l = k) xs)"
  using assms by (induction xs) auto

lemma find_filter_other_key:
  "find (\<lambda>l. list_id l = k) (filter (\<lambda>l. list_id l \<noteq> k) xs) = None"
  by (induction xs) auto

lemma find_key_Some:
  "find (\<lambda>l. list_id l = k) xs = Some l \<Longrightarrow> list_id l = k \<and> l \<in> set xs"
  by (induction xs) (auto split: if_splits)

lemma set_map_same_key:
  "l \<in> set (map (\<lambda>l. if list_id l = k then l\<lparr>list_realmId := v\<rparr> else l) xs)
     \<Longrightarrow> list_id l = k \<Longrightarrow> list_realmId l = v"
  by (induction xs) (simp_all split: if_splits, fastforce+)

lemma filter_put_same_key:
  "filter (\<lambda>x. realm_realmId x = realm_realmId r)
     (filter (\<lambda>x. realm_realmId x \<noteq> realm_realmId r) xs @ [r]) = [r]"
  by (induction xs) auto

lemma moved_item_in:
  "i \<in> set xs \<Longrightarrow> p i \<Longrightarrow> f i \<in> set (map (\<lambda>i. if p i then f i else i) xs)"
  by force

lemma move_keeps_invariant:
  assumes "\<forall>i \<in> set xs. \<forall>l \<in> set ls. item_todoListId i = list_id l \<longrightarrow> item_realmId i = list_realmId l"
      and "\<forall>l \<in> set ls. list_id l = k \<longrightarrow> list_realmId l = old"
  shows "\<forall>i \<in> set (map (\<lambda>i. if item_realmId i = old \<and> item_todoListId i = k
                                then i\<lparr>item_realmId := new\<rparr> else i) xs).
         \<forall>l \<in> set (map (\<lambda>l. if list_id l = k then l\<lparr>list_realmId := new\<rparr> else l) ls).
           item_todoListId i = list_id l \<longrightarrow> item_realmId i = list_realmId l"
proof (intro ballI impI)
  fix i l
  assume i: "i \<in> set (map (\<lambda>i. if item_realmId i = old \<and> item_todoListId i = k
                                then i\<lparr>item_realmId := new\<rparr> else i) xs)"
    and l: "l \<in> set (map (\<lambda>l. if list_id l = k then l\<lparr>list_realmId := new\<rparr> else l) ls)"
    and eq: "item_todoListId i = list_id l"
  from i obtain i0 where i0: "i0 \<in> set xs"
    and i_def: "i = (if item_realmId i0 = old \<and> item_todoListId i0 = k then i0\<lparr>item_realmId := new\<rparr> else i0)"
    unfolding set_map by (rule imageE)
  from l obtain l0 where l0: "l0 \<in> set ls"
    and l_def: "l = (if list_id l0 = k then l0\<lparr>list_realmId := new\<rparr> else l0)"
    unfolding set_map by (rule imageE)
  have ids: "item_todoListId i = item_todoListId i0" "list_id l = list_id l0"
    by (simp_all add: i_def l_def)
  with eq have same: "item_todoListId i0 = list_id l0" by simp
  with assms(1) i0 l0 have r0: "item_realmId i0 = list_realmId l0" by blast
  show "item_realmId i = list_realmId l"
  proof (cases "list_id l0 = k")
    case True
    with assms(2) l0 have "list_realmId l0 = old" by blast
    with True same r0 show ?thesis by (simp add: i_def l_def)
  next
    case False
    with same r0 show ?thesis by (simp add: i_def l_def)
  qed
qed

subsection \<open>A failed call leaves the database as it was\<close>

lemma transaction_failed:
  "transaction body d = (d', Inl e) \<Longrightarrow> d' = d"
  by (cases "body d") (simp add: transaction_def split: sum.splits)

lemma makeSharable_failed:
  "makeSharable T F this d = (d', Inl e) \<Longrightarrow> d' = d"
  by (simp add: makeSharable_run split: if_splits)

lemma makePrivate_failed:
  "makePrivate F this d = (d', Inl e) \<Longrightarrow> d' = d"
  unfolding makePrivate_def Let_def by (rule transaction_failed)

lemma shareWith_failed:
  "shareWith T F this name email sendEmail d = (d', Inl e) \<Longrightarrow> d' = d"
  unfolding shareWith_def by (rule transaction_failed)

lemma unshareWith_failed:
  "unshareWith F this email d = (d', Inl e) \<Longrightarrow> d' = d"
  unfolding unshareWith_def by (rule transaction_failed)

lemma delete_failed:
  "delete T F this d = (d', Inl e) \<Longrightarrow> d' = d"
  unfolding delete_def by (rule transaction_failed)

lemma failed_unchanged:
  assumes "\<And>d' e. f d = (d', Inl e) \<Longrightarrow> d' = d"
  shows "isl (snd (f d)) \<longrightarrow> fst (f d) = d"
proof
  assume "isl (snd (f d))"
  then obtain e where "snd (f d) = Inl e" by (cases "snd (f d)") simp_all
  then have "f d = (fst (f d), Inl e)" by (cases "f d") simp
  then show "fst (f d) = d" by (rule assms)
qed

lemma makeSharable_isl:
  "isl (snd (makeSharable T F this d)) = (F 48 \<or> F 54 \<or> F 56)"
  by (simp add: makeSharable_run)

lemma makePrivate_isl:
  "isl (snd (makePrivate F this d)) = (F 74 \<or> F 82 \<or> F 87 \<or> F 89)"
  by (simp add: makePrivate_run)

lemma shareWith_isl:
  "isl (snd (shareWith T F this name email sendEmail d))
     = ((\<not> isSharable T this \<and> (F 48 \<or> F 54 \<or> F 56)) \<or> F 106)"
  by (simp add: shareWith_run makeSharable_run)

lemma unshareWith_isl:
  "isl (snd (unshareWith F this email d))
     = (F 123 \<or> F 129
        \<or> (length (filter (\<lambda>m. member_realmId m = list_realmId this \<and> member_email m \<noteq> email) (members d)) \<le> 1
            \<and> (F 74 \<or> F 82 \<or> F 87 \<or> F 89)))"
proof -
  have eq: "(\<lambda>x. (member_realmId x = list_realmId this \<longrightarrow> member_email x \<noteq> email)
                 \<and> member_realmId x = list_realmId this)
            = (\<lambda>m. member_realmId m = list_realmId this \<and> member_email m \<noteq> email)"
    by auto
  show ?thesis
    by (simp add: unshareWith_run makePrivate_run Let_def eq)
qed

lemma delete_isl:
  "isl (snd (delete T F this d)) = (F 147 \<or> F 154 \<or> F 158 \<or> F 159)"
  by (simp add: delete_run)

subsection \<open>Each method keeps the items of a list in the realm of the list\<close>

lemma makeSharable_invariant:
  assumes "items_follow_lists d" and "entity_current d this"
  shows "items_follow_lists (fst (makeSharable T F this d))"
proof (cases "makeSharable T F this d")
  case (Pair d' res)
  show ?thesis
  proof (cases res)
    case (Inl e)
    with Pair have "d' = d" by (simp add: makeSharable_failed)
    with Pair assms show ?thesis by simp
  next
    case (Inr r)
    with Pair have run: "makeSharable T F this d = (d', Inr r)" by simp
    note d' = makeSharable_ok(2) [OF run]
    have its: "todoItems d' = map (\<lambda>i. if item_realmId i = list_realmId this \<and> item_todoListId i = list_id this
                                       then i\<lparr>item_realmId := T (list_id this)\<rparr> else i) (todoItems d)"
      and ls: "todoLists d' = map (\<lambda>l. if list_id l = list_id this then l\<lparr>list_realmId := T (list_id this)\<rparr> else l)
                              (todoLists d)"
      unfolding d' by simp_all
    have "items_follow_lists d'"
      unfolding items_follow_lists_def its ls
      by (rule move_keeps_invariant)
         (use assms in \<open>simp_all only: items_follow_lists_def entity_current_def\<close>)
    with Pair show ?thesis by simp
  qed
qed

lemma makePrivate_invariant:
  assumes "items_follow_lists d" and "entity_current d this"
  shows "items_follow_lists (fst (makePrivate F this d))"
proof (cases "makePrivate F this d")
  case (Pair d' res)
  show ?thesis
  proof (cases res)
    case (Inl e)
    with Pair have "d' = d" by (simp add: makePrivate_failed)
    with Pair assms show ?thesis by simp
  next
    case (Inr r)
    with Pair have run: "makePrivate F this d = (d', Inr r)" by simp
    note d' = makePrivate_ok [OF run]
    have its: "todoItems d' = map (\<lambda>i. if item_realmId i = list_realmId this \<and> item_todoListId i = list_id this
                                       then i\<lparr>item_realmId := currentUserId d\<rparr> else i) (todoItems d)"
      and ls: "todoLists d' = map (\<lambda>l. if list_id l = list_id this then l\<lparr>list_realmId := currentUserId d\<rparr> else l)
                              (todoLists d)"
      unfolding d' by simp_all
    have "items_follow_lists d'"
      unfolding items_follow_lists_def its ls
      by (rule move_keeps_invariant)
         (use assms in \<open>simp_all only: items_follow_lists_def entity_current_def\<close>)
    with Pair show ?thesis by simp
  qed
qed

lemma shareWith_invariant:
  assumes "items_follow_lists d" and "entity_current d this"
  shows "items_follow_lists (fst (shareWith T F this name email sendEmail d))"
proof (cases "shareWith T F this name email sendEmail d")
  case (Pair d' res)
  show ?thesis
  proof (cases res)
    case (Inl e)
    with Pair have "d' = d" by (simp add: shareWith_failed)
    with Pair assms show ?thesis by simp
  next
    case (Inr r)
    with Pair have run: "shareWith T F this name email sendEmail d = (d', Inr r)" by simp
    have "items_follow_lists d'"
    proof (cases "isSharable T this")
      case True
      with run have "d' = d\<lparr>members := members d @ [invited (list_realmId this) name email sendEmail]\<rparr>"
        by (simp add: shareWith_run split: if_splits)
      then have "todoItems d' = todoItems d" "todoLists d' = todoLists d" by simp_all
      with assms(1) show ?thesis by (simp add: items_follow_lists_def)
    next
      case False
      from shareWith_ok_private [OF False run] obtain d1 where
        ms: "makeSharable T F this d = (d1, Inr (T (list_id this)))"
        and d': "d' = d1\<lparr>members := members d1 @ [invited (T (list_id this)) name email sendEmail]\<rparr>"
        by blast
      from makeSharable_invariant [OF assms, of T F] ms have "items_follow_lists d1" by simp
      moreover from d' have "todoItems d' = todoItems d1" "todoLists d' = todoLists d1" by simp_all
      ultimately show ?thesis by (simp add: items_follow_lists_def)
    qed
    with Pair show ?thesis by simp
  qed
qed

lemma unshareWith_invariant:
  assumes "items_follow_lists d" and "entity_current d this"
  shows "items_follow_lists (fst (unshareWith F this email d))"
proof (cases "unshareWith F this email d")
  case (Pair d' res)
  show ?thesis
  proof (cases res)
    case (Inl e)
    with Pair have "d' = d" by (simp add: unshareWith_failed)
    with Pair assms show ?thesis by simp
  next
    case (Inr r)
    with Pair have run: "unshareWith F this email d = (d', Inr r)" by simp
    let ?d1 = "d\<lparr>members := filter (\<lambda>m. \<not> (member_realmId m = list_realmId this \<and> member_email m = email))
                                     (members d)\<rparr>"
    have inv1: "items_follow_lists ?d1" and cur1: "entity_current ?d1 this"
      using assms by (simp_all add: items_follow_lists_def entity_current_def)
    have "items_follow_lists d'"
    proof (cases "length (filter (\<lambda>m. member_realmId m = list_realmId this) (members ?d1)) \<le> 1")
      case True
      with unshareWith_ok [OF run] have "makePrivate F this ?d1 = (d', Inr ())"
        by (simp add: Let_def)
      with makePrivate_invariant [OF inv1 cur1, of F] show ?thesis by simp
    next
      case False
      with unshareWith_ok [OF run] have "d' = ?d1" by (simp add: Let_def)
      with inv1 show ?thesis by simp
    qed
    with Pair show ?thesis by simp
  qed
qed

lemma delete_invariant:
  assumes "items_follow_lists d"
  shows "items_follow_lists (fst (delete T F this d))"
proof (cases "delete T F this d")
  case (Pair d' res)
  show ?thesis
  proof (cases res)
    case (Inl e)
    with Pair have "d' = d" by (simp add: delete_failed)
    with Pair assms show ?thesis by simp
  next
    case (Inr r)
    with Pair have run: "delete T F this d = (d', Inr r)" by simp
    have "todoItems d' = filter (\<lambda>i. item_todoListId i \<noteq> list_id this) (todoItems d)"
      and "todoLists d' = filter (\<lambda>l. list_id l \<noteq> list_id this) (todoLists d)"
      unfolding delete_ok [OF run] by simp_all
    with assms have "items_follow_lists d'"
      by (simp add: items_follow_lists_def)
    with Pair show ?thesis by simp
  qed
qed

subsection \<open>Two calls on one entity object\<close>

text \<open>
  No method assigns to \<open>this.realmId\<close>, so an entity object is stale once
  \<open>makeSharable\<close> or \<open>makePrivate\<close> has moved its list. \<open>unshareWith\<close> called on the very
  object \<open>shareWith\<close> was called on reads the old personal realm id: it deletes no
  member, counts none, and \<open>makePrivate\<close> then moves the stored list back while the
  item, the invited member and the realm row stay in the tied realm. From a database
  in which every item has the \<open>realmId\<close> of its list, this run reaches one in which
  that fails.
\<close>

lemma share_unshare_same_object:
  "\<not> isSharable rlm groceries
   \<and> get_todoLists db0 ''l1'' = Some groceries
   \<and> items_follow_lists db0
   \<and> shareWith rlm (\<lambda>_. False) groceries ''Bob'' ''bob@example.org'' True db0 = (db_shared, Inr ())
   \<and> unshareWith (\<lambda>_. False) groceries ''bob@example.org'' db_shared = (db_left, Inr ())
   \<and> get_todoLists db_left ''l1'' = Some groceries
   \<and> filter (\<lambda>x. realm_realmId x = rlm ''l1'') (realms db_left)
        = [\<lparr>realm_realmId = ''rlm~l1'', realm_name = ''Groceries''\<rparr>]
   \<and> filter (\<lambda>m. member_realmId m = rlm ''l1'') (members db_left)
        = [invited ''rlm~l1'' ''Bob'' ''bob@example.org'' True]
   \<and> \<not> items_follow_lists db_left"
  by (simp add: isSharable_def rlm_def groceries_def db0_def db1_def db_shared_def db_left_def
        get_todoLists_def shareWith_run makeSharable_run unshareWith_run makePrivate_run invited_def
        items_follow_lists_def)

section \<open>The claims\<close>

text \<open>
  C1. For every private list \<open>L\<close> (\<open>L.realmId \<noteq> tiedRealmId(L.id)\<close>), after
  \<open>makeSharable()\<close> completes: the operation returns \<open>tiedRealmId(L.id)\<close>; the stored
  row of \<open>L\<close> is the one stored before with \<open>realmId\<close> set to \<open>tiedRealmId(L.id)\<close>; every
  item that was in \<open>(oldRealmId, L.id)\<close> is now in \<open>(tiedRealmId(L.id), L.id)\<close>, no item
  of \<open>L\<close> is left in the old realm and no item is lost; and exactly one realm row
  exists at \<open>tiedRealmId(L.id)\<close>, with the title of \<open>L\<close> as its name.
\<close>

theorem makeSharable_private_list:
  assumes "\<not> isSharable T this"
      and "makeSharable T F this d = (d', Inr r)"
  shows "r = T (list_id this)
       \<and> get_todoLists d' (list_id this)
           = map_option (\<lambda>l. l\<lparr>list_realmId := T (list_id this)\<rparr>) (get_todoLists d (list_id this))
       \<and> (\<forall>i \<in> set (todoItems d).
            item_realmId i = list_realmId this \<and> item_todoListId i = list_id this
              \<longrightarrow> i\<lparr>item_realmId := T (list_id this)\<rparr> \<in> set (todoItems d'))
       \<and> (\<forall>i \<in> set (todoItems d').
            item_todoListId i = list_id this \<longrightarrow> item_realmId i \<noteq> list_realmId this)
       \<and> length (todoItems d') = length (todoItems d)
       \<and> filter (\<lambda>x. realm_realmId x = T (list_id this)) (realms d')
           = [\<lparr>realm_realmId = T (list_id this), realm_name = list_title this\<rparr>]"
proof -
  from assms(2) have ok: "\<not> F 48" "\<not> F 54" "\<not> F 56"
    by (auto simp: makeSharable_run split: if_splits)
  from assms(2) ok have r: "r = T (list_id this)"
    and ls: "todoLists d' = map (\<lambda>l. if list_id l = list_id this then l\<lparr>list_realmId := T (list_id this)\<rparr> else l) (todoLists d)"
    and its: "todoItems d' = map (\<lambda>i. if item_realmId i = list_realmId this \<and> item_todoListId i = list_id this
                                       then i\<lparr>item_realmId := T (list_id this)\<rparr> else i) (todoItems d)"
    and rs: "realms d' = filter (\<lambda>x. realm_realmId x \<noteq> T (list_id this)) (realms d)
                            @ [\<lparr>realm_realmId = T (list_id this), realm_name = list_title this\<rparr>]"
    by (auto simp: makeSharable_run)
  have a: "get_todoLists d' (list_id this)
           = map_option (\<lambda>l. l\<lparr>list_realmId := T (list_id this)\<rparr>) (get_todoLists d (list_id this))"
    unfolding get_todoLists_def ls by (rule find_map_same_key) simp
  have b: "\<forall>i \<in> set (todoItems d).
            item_realmId i = list_realmId this \<and> item_todoListId i = list_id this
              \<longrightarrow> i\<lparr>item_realmId := T (list_id this)\<rparr> \<in> set (todoItems d')"
    unfolding its by force
  have c: "\<forall>i \<in> set (todoItems d').
            item_todoListId i = list_id this \<longrightarrow> item_realmId i \<noteq> list_realmId this"
    using assms(1) unfolding its isSharable_def by auto
  have e: "length (todoItems d') = length (todoItems d)"
    unfolding its by simp
  have f: "filter (\<lambda>x. realm_realmId x = T (list_id this)) (realms d')
           = [\<lparr>realm_realmId = T (list_id this), realm_name = list_title this\<rparr>]"
    unfolding rs
    using filter_put_same_key [of "\<lparr>realm_realmId = T (list_id this), realm_name = list_title this\<rparr>" "realms d"]
    by simp
  from r a b c e f show ?thesis by blast
qed

theorem makeSharable_private_list_witness:
  "\<not> isSharable rlm groceries
   \<and> makeSharable rlm (\<lambda>_. False) groceries db0 = (db1, Inr ''rlm~l1'')
   \<and> ''rlm~l1'' = rlm (list_id groceries)
   \<and> get_todoLists db1 (list_id groceries)
           = map_option (\<lambda>l. l\<lparr>list_realmId := rlm (list_id groceries)\<rparr>) (get_todoLists db0 (list_id groceries))
   \<and> \<lparr>item_realmId = ''alice'', item_todoListId = ''l1'', item_fields = ''milk''\<rparr> \<in> set (todoItems db0)
   \<and> \<lparr>item_realmId = ''alice'', item_todoListId = ''l1'', item_fields = ''milk''\<rparr>
         \<lparr>item_realmId := rlm (list_id groceries)\<rparr> \<in> set (todoItems db1)"
proof -
  let ?milk = "\<lparr>item_realmId = ''alice'', item_todoListId = ''l1'', item_fields = ''milk''\<rparr>"
  have h1: "\<not> isSharable rlm groceries"
    by (simp add: isSharable_def rlm_def groceries_def)
  have h2: "makeSharable rlm (\<lambda>_. False) groceries db0 = (db1, Inr ''rlm~l1'')"
    by (simp add: makeSharable_run rlm_def groceries_def db0_def db1_def)
  have h3: "?milk \<in> set (todoItems db0)"
    by (simp add: db0_def)
  have h4: "item_realmId ?milk = list_realmId groceries \<and> item_todoListId ?milk = list_id groceries"
    by (simp add: groceries_def)
  note t = makeSharable_private_list [OF h1 h2]
  note moved = t [THEN conjunct2, THEN conjunct2, THEN conjunct1, THEN bspec, OF h3, THEN mp, OF h4]
  show ?thesis
    by (intro conjI h1 h2 h3 moved t [THEN conjunct1] t [THEN conjunct2, THEN conjunct1])
qed

text \<open>
  C2, as stated, says that after \<open>makePrivate()\<close> on a shared list the stored \<open>realmId\<close>
  is the personal id of the owner of the list, for any caller. The method writes
  \<open>db.cloud.currentUserId\<close>: when Bob, a member, calls it on the list Alice owns, the
  stored \<open>realmId\<close> becomes Bob's id.
\<close>

theorem makePrivate_owner_counterexample:
  "isSharable rlm shared_groceries
   \<and> get_todoLists db_bob ''l1'' = Some shared_groceries
   \<and> list_owner shared_groceries = ''alice''
   \<and> snd (makePrivate (\<lambda>_. False) shared_groceries db_bob) = Inr ()
   \<and> map_option list_realmId (get_todoLists (fst (makePrivate (\<lambda>_. False) shared_groceries db_bob)) ''l1'')
       = Some ''bob''
   \<and> map_option list_realmId (get_todoLists (fst (makePrivate (\<lambda>_. False) shared_groceries db_bob)) ''l1'')
       \<noteq> Some (list_owner shared_groceries)"
  by (simp add: isSharable_def rlm_def shared_groceries_def groceries_def db_bob_def db1_def
        get_todoLists_def makePrivate_run invited_def)

text \<open>
  C2, amended. For every shared list \<open>L\<close> (\<open>L.realmId = tiedRealmId(L.id)\<close>), after
  \<open>makePrivate()\<close> completes: the stored \<open>realmId\<close> of \<open>L\<close> is the personal id of the
  caller (\<open>db.cloud.currentUserId\<close>); no member row with the old realm id remains; no
  realm row exists at the old realm id; every item that was in \<open>(oldRealmId, L.id)\<close> is
  in \<open>(currentUserId, L.id)\<close>, and when all items of \<open>L\<close> were in the old realm, all
  items of \<open>L\<close> are in the realm of the caller.
\<close>

theorem makePrivate_shared_list:
  assumes "isSharable T this"
      and "makePrivate F this d = (d', Inr r)"
  shows "get_todoLists d' (list_id this)
           = map_option (\<lambda>l. l\<lparr>list_realmId := currentUserId d\<rparr>) (get_todoLists d (list_id this))
       \<and> filter (\<lambda>m. member_realmId m = list_realmId this) (members d') = []
       \<and> filter (\<lambda>x. realm_realmId x = list_realmId this) (realms d') = []
       \<and> (\<forall>i \<in> set (todoItems d).
            item_realmId i = list_realmId this \<and> item_todoListId i = list_id this
              \<longrightarrow> i\<lparr>item_realmId := currentUserId d\<rparr> \<in> set (todoItems d'))
       \<and> ((\<forall>i \<in> set (todoItems d). item_todoListId i = list_id this \<longrightarrow> item_realmId i = list_realmId this)
            \<longrightarrow> (\<forall>i \<in> set (todoItems d'). item_todoListId i = list_id this \<longrightarrow> item_realmId i = currentUserId d))
       \<and> length (todoItems d') = length (todoItems d)
       \<and> currentUserId d' = currentUserId d"
proof -
  note d' = makePrivate_ok [OF assms(2)]
  have a: "get_todoLists d' (list_id this)
           = map_option (\<lambda>l. l\<lparr>list_realmId := currentUserId d\<rparr>) (get_todoLists d (list_id this))"
    unfolding get_todoLists_def d' by (simp add: find_map_same_key)
  have b: "filter (\<lambda>m. member_realmId m = list_realmId this) (members d') = []"
    unfolding d' by (simp add: filter_empty_conv)
  have c: "filter (\<lambda>x. realm_realmId x = list_realmId this) (realms d') = []"
    unfolding d' by (simp add: filter_empty_conv)
  have e: "\<forall>i \<in> set (todoItems d).
            item_realmId i = list_realmId this \<and> item_todoListId i = list_id this
              \<longrightarrow> i\<lparr>item_realmId := currentUserId d\<rparr> \<in> set (todoItems d')"
    unfolding d' by force
  have f: "(\<forall>i \<in> set (todoItems d). item_todoListId i = list_id this \<longrightarrow> item_realmId i = list_realmId this)
            \<longrightarrow> (\<forall>i \<in> set (todoItems d'). item_todoListId i = list_id this \<longrightarrow> item_realmId i = currentUserId d)"
    unfolding d' by auto
  have g: "length (todoItems d') = length (todoItems d)" "currentUserId d' = currentUserId d"
    unfolding d' by simp_all
  from a b c e f g show ?thesis by blast
qed

theorem makePrivate_shared_list_witness:
  "isSharable rlm shared_groceries
   \<and> makePrivate (\<lambda>_. False) shared_groceries db_bob = (db_bob_private, Inr ())
   \<and> get_todoLists db_bob_private (list_id shared_groceries)
        = map_option (\<lambda>l. l\<lparr>list_realmId := currentUserId db_bob\<rparr>)
            (get_todoLists db_bob (list_id shared_groceries))
   \<and> filter (\<lambda>m. member_realmId m = list_realmId shared_groceries) (members db_bob_private) = []
   \<and> \<lparr>item_realmId = ''rlm~l1'', item_todoListId = ''l1'', item_fields = ''milk''\<rparr> \<in> set (todoItems db_bob)
   \<and> \<lparr>item_realmId = ''rlm~l1'', item_todoListId = ''l1'', item_fields = ''milk''\<rparr>
         \<lparr>item_realmId := currentUserId db_bob\<rparr> \<in> set (todoItems db_bob_private)
   \<and> currentUserId db_bob = ''bob''"
proof -
  let ?milk = "\<lparr>item_realmId = ''rlm~l1'', item_todoListId = ''l1'', item_fields = ''milk''\<rparr>"
  have h1: "isSharable rlm shared_groceries"
    by (simp add: isSharable_def rlm_def shared_groceries_def groceries_def)
  have h2: "makePrivate (\<lambda>_. False) shared_groceries db_bob = (db_bob_private, Inr ())"
    by (simp add: makePrivate_run rlm_def shared_groceries_def groceries_def db_bob_def
          db_bob_private_def db0_def db1_def invited_def)
  have h3: "?milk \<in> set (todoItems db_bob)"
    by (simp add: db_bob_def db1_def)
  have h4: "item_realmId ?milk = list_realmId shared_groceries
            \<and> item_todoListId ?milk = list_id shared_groceries"
    by (simp add: shared_groceries_def groceries_def)
  have h5: "currentUserId db_bob = ''bob''"
    by (simp add: db_bob_def)
  note t = makePrivate_shared_list [OF h1 h2]
  note moved = t [THEN conjunct2, THEN conjunct2, THEN conjunct2, THEN conjunct1,
                  THEN bspec, OF h3, THEN mp, OF h4]
  show ?thesis
    by (intro conjI h1 h2 h3 h5 moved t [THEN conjunct1] t [THEN conjunct2, THEN conjunct1])
qed

text \<open>
  C3 is read on the list as it is stored: \<open>unshareWith\<close> is called on the entity read
  from the store after \<open>shareWith\<close>. As stated, it says that the final stored \<open>realmId\<close>
  is the personal id of the owner of the list. \<open>unshareWith\<close> reverts the list through
  \<open>makePrivate\<close>, which writes \<open>db.cloud.currentUserId\<close>: when Bob shares and unshares
  the private list that Alice owns, no realm row and no member row of the tied realm
  remain, and the stored \<open>realmId\<close> is Bob's id, not Alice's.
\<close>

theorem share_then_unshare_owner_counterexample:
  "\<not> isSharable rlm groceries
   \<and> list_owner groceries = ''alice''
   \<and> currentUserId db0_bob = ''bob''
   \<and> get_todoLists db0_bob ''l1'' = Some groceries
   \<and> filter (\<lambda>m. member_realmId m = rlm ''l1'') (members db0_bob) = []
   \<and> shareWith rlm (\<lambda>_. False) groceries ''Carol'' ''carol@example.org'' True db0_bob
        = (db_carol_invited, Inr ())
   \<and> get_todoLists db_carol_invited ''l1'' = Some shared_groceries
   \<and> unshareWith (\<lambda>_. False) shared_groceries ''carol@example.org'' db_carol_invited
        = (db_bob_private, Inr ())
   \<and> filter (\<lambda>x. realm_realmId x = rlm ''l1'') (realms db_bob_private) = []
   \<and> filter (\<lambda>m. member_realmId m = rlm ''l1'') (members db_bob_private) = []
   \<and> map_option list_realmId (get_todoLists db_bob_private ''l1'') = Some ''bob''
   \<and> map_option list_realmId (get_todoLists db_bob_private ''l1'') \<noteq> Some (list_owner groceries)"
  by (simp add: isSharable_def rlm_def groceries_def shared_groceries_def db0_def db1_def
        db0_bob_def db_carol_invited_def db_bob_private_def get_todoLists_def
        shareWith_run makeSharable_run unshareWith_run makePrivate_run invited_def)

text \<open>
  C3, amended. For every private list \<open>L\<close> with no membership on its tied realm,
  \<open>shareWith(name, email, sendEmail)\<close> followed by \<open>unshareWith(email)\<close> (on the list as
  stored after \<open>shareWith\<close>) reverts \<open>L\<close> to private: the stored \<open>realmId\<close> of \<open>L\<close> is the
  personal id of the caller (\<open>db.cloud.currentUserId\<close>), no realm row and no member row
  for \<open>tiedRealmId(L.id)\<close> remain, and the items that were in \<open>(L.realmId, L.id)\<close> are
  in the realm of the caller.
\<close>

theorem share_then_unshare_reread:
  assumes priv: "\<not> isSharable T this"
      and nomembers: "\<forall>m \<in> set (members d). member_realmId m \<noteq> T (list_id this)"
      and share: "shareWith T F1 this name email sendEmail d = (d1, Inr r1)"
      and reread: "get_todoLists d1 (list_id this) = Some this'"
      and unshare: "unshareWith F2 this' email d1 = (d2, Inr r2)"
  shows "get_todoLists d2 (list_id this) = Some (this'\<lparr>list_realmId := currentUserId d\<rparr>)
       \<and> filter (\<lambda>x. realm_realmId x = T (list_id this)) (realms d2) = []
       \<and> filter (\<lambda>m. member_realmId m = T (list_id this)) (members d2) = []
       \<and> (\<forall>i \<in> set (todoItems d).
             item_realmId i = list_realmId this \<and> item_todoListId i = list_id this
               \<longrightarrow> i\<lparr>item_realmId := currentUserId d\<rparr> \<in> set (todoItems d2))"
proof -
  let ?k = "list_id this"
  from shareWith_ok_private [OF priv share] obtain d0 where
    ms: "makeSharable T F1 this d = (d0, Inr (T ?k))"
    and d1: "d1 = d0\<lparr>members := members d0 @ [invited (T ?k) name email sendEmail]\<rparr>"
    by blast
  note d0 = makeSharable_ok(2) [OF ms]
  have ls1: "todoLists d1 = map (\<lambda>l. if list_id l = ?k then l\<lparr>list_realmId := T ?k\<rparr> else l) (todoLists d)"
    and ms1: "members d1 = members d @ [invited (T ?k) name email sendEmail]"
    and uid1: "currentUserId d1 = currentUserId d"
    and is1: "todoItems d1 = map (\<lambda>i. if item_realmId i = list_realmId this \<and> item_todoListId i = ?k
                                       then i\<lparr>item_realmId := T ?k\<rparr> else i) (todoItems d)"
    unfolding d1 d0 by simp_all
  from reread have "list_id this' = ?k" and "this' \<in> set (todoLists d1)"
    unfolding get_todoLists_def by (auto dest: find_key_Some)
  then have id': "list_id this' = ?k" and realm': "list_realmId this' = T ?k"
    unfolding ls1 by (auto dest: set_map_same_key)
  let ?d1' = "d1\<lparr>members := filter (\<lambda>m. \<not> (member_realmId m = list_realmId this' \<and> member_email m = email))
                                     (members d1)\<rparr>"
  have left: "filter (\<lambda>m. member_realmId m = T ?k) (members ?d1') = []"
    using nomembers by (auto simp: ms1 realm' invited_def filter_empty_conv)
  with unshareWith_ok [OF unshare] have mp: "makePrivate F2 this' ?d1' = (d2, Inr ())"
    by (simp add: Let_def realm')
  note d2 = makePrivate_ok [OF mp]
  have a: "get_todoLists d2 ?k = Some (this'\<lparr>list_realmId := currentUserId d\<rparr>)"
    using reread unfolding get_todoLists_def d2 by (simp add: id' uid1 find_map_same_key)
  have b: "filter (\<lambda>x. realm_realmId x = T ?k) (realms d2) = []"
    unfolding d2 by (simp add: realm' filter_empty_conv)
  have c: "filter (\<lambda>m. member_realmId m = T ?k) (members d2) = []"
    unfolding d2 by (simp add: realm' filter_empty_conv)
  have e: "\<forall>i \<in> set (todoItems d).
             item_realmId i = list_realmId this \<and> item_todoListId i = ?k
               \<longrightarrow> i\<lparr>item_realmId := currentUserId d\<rparr> \<in> set (todoItems d2)"
  proof (intro ballI impI)
    fix i assume i: "i \<in> set (todoItems d)"
      and at: "item_realmId i = list_realmId this \<and> item_todoListId i = ?k"
    have is2: "todoItems d2 = map (\<lambda>i. if item_realmId i = T ?k \<and> item_todoListId i = ?k
                                          then i\<lparr>item_realmId := currentUserId d\<rparr> else i) (todoItems d1)"
      unfolding d2 by (simp add: realm' id' uid1)
    from i at have "i\<lparr>item_realmId := T ?k\<rparr> \<in> set (todoItems d1)"
      unfolding is1 by force
    moreover have "item_realmId (i\<lparr>item_realmId := T ?k\<rparr>) = T ?k
                   \<and> item_todoListId (i\<lparr>item_realmId := T ?k\<rparr>) = ?k"
      using at by simp
    ultimately have "(i\<lparr>item_realmId := T ?k\<rparr>)\<lparr>item_realmId := currentUserId d\<rparr> \<in> set (todoItems d2)"
      unfolding is2 by (rule moved_item_in)
    then show "i\<lparr>item_realmId := currentUserId d\<rparr> \<in> set (todoItems d2)" by simp
  qed
  from a b c e show ?thesis by blast
qed

theorem share_then_unshare_reread_witness:
  "\<not> isSharable rlm groceries
   \<and> filter (\<lambda>m. member_realmId m = rlm (list_id groceries)) (members db0) = []
   \<and> shareWith rlm (\<lambda>_. False) groceries ''Bob'' ''bob@example.org'' True db0 = (db_shared, Inr ())
   \<and> get_todoLists db_shared (list_id groceries) = Some shared_groceries
   \<and> unshareWith (\<lambda>_. False) shared_groceries ''bob@example.org'' db_shared = (db0, Inr ())
   \<and> get_todoLists db0 (list_id groceries) = Some (shared_groceries\<lparr>list_realmId := currentUserId db0\<rparr>)
   \<and> filter (\<lambda>x. realm_realmId x = rlm (list_id groceries)) (realms db0) = []"
proof -
  have h1: "\<not> isSharable rlm groceries"
    by (simp add: isSharable_def rlm_def groceries_def)
  have h2: "\<forall>m \<in> set (members db0). member_realmId m \<noteq> rlm (list_id groceries)"
    by (simp add: db0_def)
  have h2': "filter (\<lambda>m. member_realmId m = rlm (list_id groceries)) (members db0) = []"
    by (simp add: db0_def)
  have h3: "shareWith rlm (\<lambda>_. False) groceries ''Bob'' ''bob@example.org'' True db0 = (db_shared, Inr ())"
    by (simp add: shareWith_run makeSharable_run isSharable_def rlm_def groceries_def db0_def
          db1_def db_shared_def invited_def)
  have h4: "get_todoLists db_shared (list_id groceries) = Some shared_groceries"
    by (simp add: get_todoLists_def db_shared_def db1_def shared_groceries_def groceries_def)
  have h5: "unshareWith (\<lambda>_. False) shared_groceries ''bob@example.org'' db_shared = (db0, Inr ())"
    by (simp add: unshareWith_run makePrivate_run shared_groceries_def groceries_def db0_def
          db1_def db_shared_def invited_def)
  note t = share_then_unshare_reread [OF h1 h2 h3 h4 h5]
  show ?thesis
    by (intro conjI h1 h2' h3 h4 h5 t [THEN conjunct1] t [THEN conjunct2, THEN conjunct1])
qed

text \<open>
  C4. For every list \<open>L\<close>, \<open>makeSharable()\<close> called twice in sequence (the second time
  on any entity with the same \<open>id\<close>, so on the same object or on the list read again)
  leaves exactly one realm row at \<open>tiedRealmId(L.id)\<close>, and the second call leaves the
  table \<open>todoLists\<close>, so the stored \<open>realmId\<close> of \<open>L\<close>, as the first call left it.
\<close>

theorem makeSharable_twice:
  assumes first: "makeSharable T F1 this d = (d1, Inr r1)"
      and same: "list_id this' = list_id this"
      and second: "makeSharable T F2 this' d1 = (d2, Inr r2)"
  shows "length (filter (\<lambda>x. realm_realmId x = T (list_id this)) (realms d2)) = 1
       \<and> todoLists d2 = todoLists d1
       \<and> get_todoLists d2 (list_id this) = get_todoLists d1 (list_id this)
       \<and> r2 = r1"
proof -
  let ?k = "list_id this"
  note r1 = makeSharable_ok(1) [OF first] and d1 = makeSharable_ok(2) [OF first]
  note r2 = makeSharable_ok(1) [OF second] and d2 = makeSharable_ok(2) [OF second]
  have rs: "realms d2 = filter (\<lambda>x. realm_realmId x \<noteq> T ?k) (realms d1)
                          @ [\<lparr>realm_realmId = T ?k, realm_name = list_title this'\<rparr>]"
    unfolding d2 by (simp add: same)
  have a: "length (filter (\<lambda>x. realm_realmId x = T ?k) (realms d2)) = 1"
    unfolding rs
    using filter_put_same_key [of "\<lparr>realm_realmId = T ?k, realm_name = list_title this'\<rparr>" "realms d1"]
    by simp
  have ls1: "todoLists d1 = map (\<lambda>l. if list_id l = ?k then l\<lparr>list_realmId := T ?k\<rparr> else l) (todoLists d)"
    unfolding d1 by simp
  have ls2: "todoLists d2 = map (\<lambda>l. if list_id l = ?k then l\<lparr>list_realmId := T ?k\<rparr> else l) (todoLists d1)"
    unfolding d2 by (simp add: same)
  have b: "todoLists d2 = todoLists d1"
    unfolding ls2 unfolding ls1 by (simp cong: if_cong)
  then have c: "get_todoLists d2 ?k = get_todoLists d1 ?k"
    by (simp add: get_todoLists_def)
  from a b c r1 r2 same show ?thesis by simp
qed

theorem makeSharable_twice_witness:
  "makeSharable rlm (\<lambda>_. False) groceries db0 = (db1, Inr ''rlm~l1'')
   \<and> list_id groceries = list_id groceries
   \<and> makeSharable rlm (\<lambda>_. False) groceries db1 = (db1, Inr ''rlm~l1'')
   \<and> length (filter (\<lambda>x. realm_realmId x = rlm (list_id groceries)) (realms db1)) = 1"
proof -
  have h1: "makeSharable rlm (\<lambda>_. False) groceries db0 = (db1, Inr ''rlm~l1'')"
    by (simp add: makeSharable_run rlm_def groceries_def db0_def db1_def)
  have h2: "list_id groceries = list_id groceries" by (rule refl)
  have h3: "makeSharable rlm (\<lambda>_. False) groceries db1 = (db1, Inr ''rlm~l1'')"
    by (simp add: makeSharable_run rlm_def groceries_def db1_def)
  note t = makeSharable_twice [OF h1 h2 h3]
  show ?thesis
    by (intro conjI h1 h2 h3 t [THEN conjunct1])
qed

text \<open>
  C5. For every list \<open>L\<close>, private or shared, \<open>delete()\<close> completes whenever no store
  request raises, and after it no list row with the \<open>id\<close> of \<open>L\<close>, no item with
  \<open>todoListId = L.id\<close>, no member row with \<open>realmId = tiedRealmId(L.id)\<close> and no realm row
  at \<open>tiedRealmId(L.id)\<close> is stored; when \<open>L\<close> has no tied realm or no members of it,
  the tables \<open>realms\<close> and \<open>members\<close> are unchanged.
\<close>

theorem delete_removes_list:
  "(\<not> F 147 \<and> \<not> F 154 \<and> \<not> F 158 \<and> \<not> F 159 \<longrightarrow> snd (delete T F this d) = Inr ())
   \<and> (delete T F this d = (d', Inr r) \<longrightarrow>
        get_todoLists d' (list_id this) = None
      \<and> filter (\<lambda>l. list_id l = list_id this) (todoLists d') = []
      \<and> filter (\<lambda>i. item_todoListId i = list_id this) (todoItems d') = []
      \<and> filter (\<lambda>m. member_realmId m = T (list_id this)) (members d') = []
      \<and> filter (\<lambda>x. realm_realmId x = T (list_id this)) (realms d') = []
      \<and> (filter (\<lambda>m. member_realmId m = T (list_id this)) (members d) = [] \<longrightarrow> members d' = members d)
      \<and> (filter (\<lambda>x. realm_realmId x = T (list_id this)) (realms d) = [] \<longrightarrow> realms d' = realms d))"
proof (intro conjI impI)
  assume "\<not> F 147 \<and> \<not> F 154 \<and> \<not> F 158 \<and> \<not> F 159"
  then show "snd (delete T F this d) = Inr ()" by (simp add: delete_run)
next
  assume run: "delete T F this d = (d', Inr r)"
  then have d': "d' = d\<lparr>todoItems := filter (\<lambda>i. item_todoListId i \<noteq> list_id this) (todoItems d),
               todoLists := filter (\<lambda>l. list_id l \<noteq> list_id this) (todoLists d),
               members := filter (\<lambda>m. member_realmId m \<noteq> T (list_id this)) (members d),
               realms := filter (\<lambda>x. realm_realmId x \<noteq> T (list_id this)) (realms d)\<rparr>"
    by (simp add: delete_run split: if_splits)
  show "get_todoLists d' (list_id this) = None"
    unfolding d' get_todoLists_def by (simp add: find_filter_other_key)
  show "filter (\<lambda>l. list_id l = list_id this) (todoLists d') = []"
    unfolding d' by (simp add: filter_empty_conv)
  show "filter (\<lambda>i. item_todoListId i = list_id this) (todoItems d') = []"
    unfolding d' by (simp add: filter_empty_conv)
  show "filter (\<lambda>m. member_realmId m = T (list_id this)) (members d') = []"
    unfolding d' by (simp add: filter_empty_conv)
  show "filter (\<lambda>x. realm_realmId x = T (list_id this)) (realms d') = []"
    unfolding d' by (simp add: filter_empty_conv)
  show "members d' = members d" if "filter (\<lambda>m. member_realmId m = T (list_id this)) (members d) = []"
    using that unfolding d' by (simp add: filter_empty_conv filter_id_conv)
  show "realms d' = realms d" if "filter (\<lambda>x. realm_realmId x = T (list_id this)) (realms d) = []"
    using that unfolding d' by (simp add: filter_empty_conv filter_id_conv)
qed

theorem delete_removes_list_witness:
  "snd (delete rlm (\<lambda>_. False) groceries db0) = Inr ()
   \<and> delete rlm (\<lambda>_. False) groceries db0 = (db_deleted, Inr ())
   \<and> filter (\<lambda>m. member_realmId m = rlm (list_id groceries)) (members db0) = []
   \<and> filter (\<lambda>x. realm_realmId x = rlm (list_id groceries)) (realms db0) = []
   \<and> get_todoLists db_deleted (list_id groceries) = None
   \<and> filter (\<lambda>i. item_todoListId i = list_id groceries) (todoItems db_deleted) = []
   \<and> members db_deleted = members db0
   \<and> realms db_deleted = realms db0"
proof -
  note t = delete_removes_list [of "\<lambda>_. False" rlm groceries db0 db_deleted "()"]
  have h0: "\<not> False \<and> \<not> False \<and> \<not> False \<and> \<not> False" by simp
  have h1: "delete rlm (\<lambda>_. False) groceries db0 = (db_deleted, Inr ())"
    by (simp add: delete_run rlm_def groceries_def db0_def db_deleted_def)
  have h2: "filter (\<lambda>m. member_realmId m = rlm (list_id groceries)) (members db0) = []"
    by (simp add: db0_def)
  have h3: "filter (\<lambda>x. realm_realmId x = rlm (list_id groceries)) (realms db0) = []"
    by (simp add: db0_def)
  note c1 = t [THEN conjunct1, rule_format, OF h0]
  note c2 = t [THEN conjunct2, rule_format, OF h1]
  show ?thesis
    using c1 h1 h2 h3 c2 by simp
qed

text \<open>
  C6. For every list \<open>L\<close> and arguments \<open>(name, email, sendEmail)\<close>, a completed
  \<open>shareWith\<close> appends exactly one member row, whose \<open>realmId\<close> is \<open>tiedRealmId(L.id)\<close>,
  whose \<open>invite\<close> is \<open>sendEmail\<close> and whose permissions are \<open>add = [todoItems]\<close>,
  \<open>update = {todoItems: [done]}\<close>; when \<open>L\<close> is sharable the other tables are unchanged,
  and when it is not they are what \<open>makeSharable\<close> makes of them.
\<close>

theorem shareWith_adds_member:
  assumes "shareWith T F this name email sendEmail d = (d', Inr r)"
  shows "members d' = members d @
           [\<lparr>member_realmId = T (list_id this),
             member_name = name,
             member_email = email,
             member_invite = sendEmail,
             member_permissions =
               \<lparr>perm_add = [''todoItems''], perm_update = [(''todoItems'', [''done''])]\<rparr>\<rparr>]
       \<and> (if isSharable T this
           then todoLists d' = todoLists d \<and> todoItems d' = todoItems d \<and> realms d' = realms d
           else snd (makeSharable T F this d) = Inr (T (list_id this))
              \<and> todoLists d' = todoLists (fst (makeSharable T F this d))
              \<and> todoItems d' = todoItems (fst (makeSharable T F this d))
              \<and> realms d' = realms (fst (makeSharable T F this d)))
       \<and> currentUserId d' = currentUserId d"
proof (cases "isSharable T this")
  case True
  with assms have "d' = d\<lparr>members := members d @ [invited (list_realmId this) name email sendEmail]\<rparr>"
    by (simp add: shareWith_run split: if_splits)
  with True show ?thesis by (simp add: invited_def isSharable_def)
next
  case False
  from shareWith_ok_private [OF False assms] obtain d1 where
    ms: "makeSharable T F this d = (d1, Inr (T (list_id this)))"
    and d': "d' = d1\<lparr>members := members d1 @ [invited (T (list_id this)) name email sendEmail]\<rparr>"
    by blast
  note d1 = makeSharable_ok(2) [OF ms]
  have "members d1 = members d" "currentUserId d1 = currentUserId d"
    unfolding d1 by simp_all
  with False ms d' show ?thesis by (simp add: invited_def)
qed

theorem shareWith_adds_member_witness:
  "shareWith rlm (\<lambda>_. False) groceries ''Bob'' ''bob@example.org'' True db0 = (db_shared, Inr ())
   \<and> members db_shared = members db0 @
           [\<lparr>member_realmId = rlm (list_id groceries),
             member_name = ''Bob'',
             member_email = ''bob@example.org'',
             member_invite = True,
             member_permissions =
               \<lparr>perm_add = [''todoItems''], perm_update = [(''todoItems'', [''done''])]\<rparr>\<rparr>]"
proof -
  have h: "shareWith rlm (\<lambda>_. False) groceries ''Bob'' ''bob@example.org'' True db0 = (db_shared, Inr ())"
    by (simp add: shareWith_run makeSharable_run isSharable_def rlm_def groceries_def db0_def
          db1_def db_shared_def invited_def)
  note t = shareWith_adds_member [OF h]
  show ?thesis
    by (intro conjI h t [THEN conjunct1])
qed

text \<open>
  C7. Starting from a database in which every item has the \<open>realmId\<close> of its list and
  the \<open>realmId\<close> of the entity in memory is the stored one, the database after
  \<open>makeSharable\<close>, \<open>makePrivate\<close>, \<open>shareWith\<close>, \<open>unshareWith\<close> or \<open>delete\<close> (completed or
  failed) is again one in which every item has the \<open>realmId\<close> of its list.
\<close>

theorem operations_keep_items_in_list_realm:
  assumes "items_follow_lists d" and "entity_current d this"
  shows "items_follow_lists (fst (makeSharable T F this d))
       \<and> items_follow_lists (fst (makePrivate F this d))
       \<and> items_follow_lists (fst (shareWith T F this name email sendEmail d))
       \<and> items_follow_lists (fst (unshareWith F this email d))
       \<and> items_follow_lists (fst (delete T F this d))"
  using makeSharable_invariant [OF assms] makePrivate_invariant [OF assms]
    shareWith_invariant [OF assms] unshareWith_invariant [OF assms] delete_invariant [OF assms(1)]
  by (intro conjI)

theorem operations_keep_items_in_list_realm_witness:
  "items_follow_lists db0 \<and> entity_current db0 groceries
   \<and> fst (makeSharable rlm (\<lambda>_. False) groceries db0) = db1
   \<and> items_follow_lists db1"
proof -
  have h1: "items_follow_lists db0"
    by (simp add: items_follow_lists_def db0_def groceries_def)
  have h2: "entity_current db0 groceries"
    by (simp add: entity_current_def db0_def)
  have h3: "fst (makeSharable rlm (\<lambda>_. False) groceries db0) = db1"
    by (simp add: makeSharable_run rlm_def groceries_def db0_def db1_def)
  note t = operations_keep_items_in_list_realm [OF h1 h2, of rlm "\<lambda>_. False"]
  from t [THEN conjunct1] h3 have "items_follow_lists db1" by simp
  with h1 h2 h3 show ?thesis by (intro conjI)
qed

text \<open>
  C8. Each of \<open>makeSharable\<close>, \<open>makePrivate\<close>, \<open>shareWith\<close>, \<open>unshareWith\<close> and \<open>delete\<close>
  fails exactly when one of the store requests it runs raises, and a failed call
  leaves the whole database as it was before the call: for \<open>shareWith\<close> also when the
  nested \<open>makeSharable\<close> had completed and the request that adds the member raises.
\<close>

theorem operations_all_or_nothing:
  "(isl (snd (makeSharable T F this d)) = (F 48 \<or> F 54 \<or> F 56))
   \<and> (isl (snd (makeSharable T F this d)) \<longrightarrow> fst (makeSharable T F this d) = d)
   \<and> (isl (snd (makePrivate F this d)) = (F 74 \<or> F 82 \<or> F 87 \<or> F 89))
   \<and> (isl (snd (makePrivate F this d)) \<longrightarrow> fst (makePrivate F this d) = d)
   \<and> (isl (snd (shareWith T F this name email sendEmail d))
         = ((\<not> isSharable T this \<and> (F 48 \<or> F 54 \<or> F 56)) \<or> F 106))
   \<and> (isl (snd (shareWith T F this name email sendEmail d))
         \<longrightarrow> fst (shareWith T F this name email sendEmail d) = d)
   \<and> (isl (snd (unshareWith F this email d))
         = (F 123 \<or> F 129
            \<or> (length (filter (\<lambda>m. member_realmId m = list_realmId this \<and> member_email m \<noteq> email)
                         (members d)) \<le> 1
                \<and> (F 74 \<or> F 82 \<or> F 87 \<or> F 89))))
   \<and> (isl (snd (unshareWith F this email d)) \<longrightarrow> fst (unshareWith F this email d) = d)
   \<and> (isl (snd (delete T F this d)) = (F 147 \<or> F 154 \<or> F 158 \<or> F 159))
   \<and> (isl (snd (delete T F this d)) \<longrightarrow> fst (delete T F this d) = d)"
  by (intro conjI makeSharable_isl makePrivate_isl shareWith_isl unshareWith_isl delete_isl
        failed_unchanged makeSharable_failed makePrivate_failed shareWith_failed
        unshareWith_failed delete_failed)

theorem operations_all_or_nothing_witness:
  "makeSharable rlm (\<lambda>n. n = 106) groceries db0 = (db1, Inr ''rlm~l1'')
   \<and> db1 \<noteq> db0
   \<and> snd (shareWith rlm (\<lambda>n. n = 106) groceries ''Bob'' ''bob@example.org'' True db0)
       = Inl (StorageError 106)
   \<and> fst (shareWith rlm (\<lambda>n. n = 106) groceries ''Bob'' ''bob@example.org'' True db0) = db0"
proof -
  have h1: "makeSharable rlm (\<lambda>n. n = 106) groceries db0 = (db1, Inr ''rlm~l1'')"
    by (simp add: makeSharable_run rlm_def groceries_def db0_def db1_def)
  have h0: "\<not> isSharable rlm groceries"
    by (simp add: isSharable_def rlm_def groceries_def)
  have h2: "db1 \<noteq> db0"
    by (simp add: db0_def db1_def)
  have h3: "snd (shareWith rlm (\<lambda>n. n = 106) groceries ''Bob'' ''bob@example.org'' True db0)
       = Inl (StorageError 106)"
    by (simp add: shareWith_run h1 h0)
  then have h4: "isl (snd (shareWith rlm (\<lambda>n. n = 106) groceries ''Bob'' ''bob@example.org'' True db0))"
    by simp
  note t = operations_all_or_nothing [of rlm "\<lambda>n. n = 106" groceries db0 "''Bob''" "''bob@example.org''" True]
  note c = t [THEN conjunct2, THEN conjunct2, THEN conjunct2, THEN conjunct2, THEN conjunct2,
              THEN conjunct1, rule_format, OF h4]
  show ?thesis
    by (intro conjI h1 h2 h3 c)
qed

text \<open>
  C10. \<open>makePrivate\<close> does not ask whether the list is sharable. On a list whose
  \<open>realmId\<close> is already the personal id of the caller, a completed \<open>makePrivate\<close> deletes
  every member row and the realm row of that personal id, and the stored \<open>realmId\<close> of
  the list stays the personal id. So a completed \<open>unshareWith\<close> on such a list, when at
  most one other member of the personal realm is left, deletes the member rows of the
  personal realm of the caller and keeps those of the tied realm.
\<close>

theorem makePrivate_on_private_list:
  assumes "list_realmId this = currentUserId d"
  shows "(makePrivate F this d = (d', Inr r) \<longrightarrow>
            members d' = filter (\<lambda>m. member_realmId m \<noteq> currentUserId d) (members d)
          \<and> realms d' = filter (\<lambda>x. realm_realmId x \<noteq> currentUserId d) (realms d)
          \<and> get_todoLists d' (list_id this)
              = map_option (\<lambda>l. l\<lparr>list_realmId := currentUserId d\<rparr>) (get_todoLists d (list_id this))
          \<and> (entity_current d this \<longrightarrow> todoLists d' = todoLists d)
          \<and> todoItems d' = todoItems d)
       \<and> (unshareWith F this email d = (d'', Inr r')
            \<and> length (filter (\<lambda>m. member_realmId m = list_realmId this \<and> member_email m \<noteq> email)
                        (members d)) \<le> 1 \<longrightarrow>
            members d'' = filter (\<lambda>m. member_realmId m \<noteq> currentUserId d) (members d)
          \<and> realms d'' = filter (\<lambda>x. realm_realmId x \<noteq> currentUserId d) (realms d)
          \<and> (\<not> isSharable T this \<longrightarrow>
                filter (\<lambda>m. member_realmId m = T (list_id this)) (members d'')
                  = filter (\<lambda>m. member_realmId m = T (list_id this)) (members d)))"
proof (intro conjI impI)
  assume run: "makePrivate F this d = (d', Inr r)"
  note d' = makePrivate_ok [OF run]
  show "members d' = filter (\<lambda>m. member_realmId m \<noteq> currentUserId d) (members d)"
    unfolding d' by (simp add: assms)
  show "realms d' = filter (\<lambda>x. realm_realmId x \<noteq> currentUserId d) (realms d)"
    unfolding d' by (simp add: assms)
  show "get_todoLists d' (list_id this)
          = map_option (\<lambda>l. l\<lparr>list_realmId := currentUserId d\<rparr>) (get_todoLists d (list_id this))"
    unfolding get_todoLists_def d' by (simp add: find_map_same_key)
  have its: "todoItems d' = map (\<lambda>i. if item_realmId i = currentUserId d \<and> item_todoListId i = list_id this
                                       then i\<lparr>item_realmId := currentUserId d\<rparr> else i) (todoItems d)"
    unfolding d' by (simp add: assms)
  show "todoItems d' = todoItems d"
    unfolding its by (simp add: map_idI)
  show "todoLists d' = todoLists d" if "entity_current d this"
  proof -
    have ls: "todoLists d' = map (\<lambda>l. if list_id l = list_id this then l\<lparr>list_realmId := currentUserId d\<rparr> else l)
                              (todoLists d)"
      unfolding d' by simp
    show ?thesis
      unfolding ls using that assms by (simp add: entity_current_def map_idI)
  qed
next
  assume both: "unshareWith F this email d = (d'', Inr r')
            \<and> length (filter (\<lambda>m. member_realmId m = list_realmId this \<and> member_email m \<noteq> email)
                        (members d)) \<le> 1"
  then have run: "unshareWith F this email d = (d'', Inr r')"
    and few: "length (filter (\<lambda>m. member_realmId m = list_realmId this \<and> member_email m \<noteq> email)
                        (members d)) \<le> 1"
    by simp_all
  let ?d1 = "d\<lparr>members := filter (\<lambda>m. \<not> (member_realmId m = list_realmId this \<and> member_email m = email))
                                     (members d)\<rparr>"
  have eq: "filter (\<lambda>m. member_realmId m = list_realmId this) (members ?d1)
            = filter (\<lambda>m. member_realmId m = list_realmId this \<and> member_email m \<noteq> email) (members d)"
    by (simp, rule filter_cong) auto
  with few unshareWith_ok [OF run] have mp: "makePrivate F this ?d1 = (d'', Inr ())"
    by (simp only: Let_def if_True)
  note d'' = makePrivate_ok [OF mp]
  have "members d'' = filter (\<lambda>m. member_realmId m \<noteq> list_realmId this) (members ?d1)"
    unfolding d'' by simp
  also have "\<dots> = filter (\<lambda>m. member_realmId m \<noteq> list_realmId this) (members d)"
    by (simp, rule filter_cong) auto
  finally have ms: "members d'' = filter (\<lambda>m. member_realmId m \<noteq> currentUserId d) (members d)"
    by (simp add: assms)
  then show "members d'' = filter (\<lambda>m. member_realmId m \<noteq> currentUserId d) (members d)" .
  show "realms d'' = filter (\<lambda>x. realm_realmId x \<noteq> currentUserId d) (realms d)"
    unfolding d'' by (simp add: assms)
  show "filter (\<lambda>m. member_realmId m = T (list_id this)) (members d'')
          = filter (\<lambda>m. member_realmId m = T (list_id this)) (members d)"
    if "\<not> isSharable T this"
  proof -
    from that assms have "T (list_id this) \<noteq> currentUserId d"
      by (auto simp: isSharable_def)
    then show ?thesis
      unfolding ms by (simp, intro filter_cong) auto
  qed
qed

theorem makePrivate_on_private_list_witness:
  "list_realmId groceries = currentUserId db_personal
   \<and> makePrivate (\<lambda>_. False) groceries db_personal = (db_left_members, Inr ())
   \<and> unshareWith (\<lambda>_. False) groceries ''bob@example.org'' db_personal = (db_left_members, Inr ())
   \<and> length (filter (\<lambda>m. member_realmId m = list_realmId groceries \<and> member_email m \<noteq> ''bob@example.org'')
                (members db_personal)) \<le> 1
   \<and> entity_current db_personal groceries
   \<and> \<not> isSharable rlm groceries
   \<and> members db_left_members
        = filter (\<lambda>m. member_realmId m \<noteq> currentUserId db_personal) (members db_personal)
   \<and> todoLists db_left_members = todoLists db_personal
   \<and> filter (\<lambda>m. member_realmId m = rlm (list_id groceries)) (members db_left_members)
        = filter (\<lambda>m. member_realmId m = rlm (list_id groceries)) (members db_personal)
   \<and> members db_left_members = [invited ''rlm~l1'' ''Bob'' ''bob@example.org'' True]"
proof -
  have h0: "list_realmId groceries = currentUserId db_personal"
    by (simp add: groceries_def db_personal_def db0_def)
  have h1: "makePrivate (\<lambda>_. False) groceries db_personal = (db_left_members, Inr ())"
    by (simp add: makePrivate_run groceries_def db_personal_def db_left_members_def db0_def invited_def)
  have h2: "unshareWith (\<lambda>_. False) groceries ''bob@example.org'' db_personal = (db_left_members, Inr ())"
    by (simp add: unshareWith_run makePrivate_run groceries_def db_personal_def db_left_members_def
          db0_def invited_def)
  have h3: "length (filter (\<lambda>m. member_realmId m = list_realmId groceries \<and> member_email m \<noteq> ''bob@example.org'')
                (members db_personal)) \<le> 1"
    by (simp add: groceries_def db_personal_def invited_def)
  have h4: "entity_current db_personal groceries"
    by (simp add: entity_current_def db_personal_def db0_def)
  have h5: "\<not> isSharable rlm groceries"
    by (simp add: isSharable_def rlm_def groceries_def)
  have h6: "members db_left_members = [invited ''rlm~l1'' ''Bob'' ''bob@example.org'' True]"
    by (simp add: db_left_members_def)
  note t = makePrivate_on_private_list [OF h0, of "\<lambda>_. False" db_left_members "()"
             "''bob@example.org''" db_left_members "()" rlm]
  note c1 = t [THEN conjunct1, rule_format, OF h1]
  note c2 = t [THEN conjunct2, rule_format, OF conjI [OF h2 h3]]
  show ?thesis
    by (intro conjI h0 h1 h2 h3 h4 h5 h6
          c2 [THEN conjunct1]
          c1 [THEN conjunct2, THEN conjunct2, THEN conjunct2, THEN conjunct1, rule_format, OF h4]
          c2 [THEN conjunct2, THEN conjunct2, rule_format, OF h5])
qed

end
